theory Spec2Isabelle
  imports Main
begin

unbundle bit_operations_syntax

section \<open>Constant expressions of the register-description compiler\<close>

text \<open>
  A shallow embedding of \<^verbatim>\<open>src/compiler/expressions.py\<close>. Every class of the module is a
  constructor of \<open>expr\<close>; the concrete operator classes that share a base class
  (\<^verbatim>\<open>Add\<close>, \<^verbatim>\<open>Sub\<close>, ... under \<^verbatim>\<open>_BinaryIntExpr\<close>) are a tag of that constructor.

  The Python objects are mutable: \<^verbatim>\<open>expr_eval_width\<close> is assigned by width resolution and by
  \<^verbatim>\<open>WidthCast.get_value\<close>, \<^verbatim>\<open>cast_width\<close> by \<^verbatim>\<open>WidthCast.resolve_cast_width\<close>. The operand
  list \<^verbatim>\<open>op\<close> is never assigned after construction. So the tree is an immutable value,
  every node carries the identity of its object (\<open>addr\<close>), and the two mutable attributes
  live in a store indexed by that identity. Every method takes the store and returns the
  updated one.
\<close>

subsection \<open>Values, types and errors\<close>

type_synonym addr = nat
type_synonym err_ctx = nat

text \<open>
  Modelled from the spec: the module \<^verbatim>\<open>model/rdl_types\<close> is not part of the sources. The spec
  names its five enumerations (access-type, on-read-type, on-write-type, addressing-type,
  precedence-type); a member is its enumeration and an index.
\<close>

datatype enum_type = AccessType | OnReadType | OnWriteType | AddressingType | PrecedenceType

text \<open>
  The type tokens \<^verbatim>\<open>predict_type\<close> returns: Python's \<^verbatim>\<open>int\<close>, \<^verbatim>\<open>bool\<close>, \<^verbatim>\<open>str\<close>, the class of an
  enumeration member, and the placeholders \<^verbatim>\<open>tp.Bit\<close> and \<^verbatim>\<open>tp.Array\<close>
  (\<^verbatim>\<open>compiler/type_placeholders\<close> is not part of the sources either; they are opaque tags
  compared by equality).
\<close>

datatype ty = Int_t | Bool_t | Bit_t | Str_t | Array_t | Enum_t enum_type

datatype val = IntV int | BoolV bool | StrV string | EnumV enum_type nat

datatype error =
    RDLCompileError string err_ctx
  | NotImplementedError
  | TypeError
  | ValueError
  | ZeroDivisionError
  | IndexError
  | AttributeError
  | FloatResult

text \<open>
  What a call does: it returns, it raises, or it never comes back (the parity loops of
  \<^verbatim>\<open>XorReduce\<close> and \<^verbatim>\<open>XnorReduce\<close> can run forever).
\<close>

datatype 'a outcome = Returns 'a | Raises error | Diverges

fun and_then :: "'a outcome \<Rightarrow> ('a \<Rightarrow> 'b outcome) \<Rightarrow> 'b outcome" where
  "and_then (Returns x) f = f x"
| "and_then (Raises e) f = Raises e"
| "and_then Diverges f = Diverges"

fun of_loop :: "'a option \<Rightarrow> 'a outcome" where
  "of_loop None = Diverges"
| "of_loop (Some x) = Returns x"

text \<open>
  Python's \<^verbatim>\<open>int(v)\<close>. A \<^verbatim>\<open>bool\<close> is 0 or 1; an enumeration member is not a number
  (\<^verbatim>\<open>TypeError\<close>). \<^verbatim>\<open>int\<close> of a string parses a numeral and raises \<^verbatim>\<open>ValueError\<close>
  otherwise; the parser of numerals is not modelled, every string raises. (\<^verbatim>\<open>predict_type\<close>
  rejects a string operand wherever \<^verbatim>\<open>int\<close> is applied.)
\<close>

fun py_int :: "val \<Rightarrow> int outcome" where
  "py_int (IntV i) = Returns i"
| "py_int (BoolV b) = Returns (if b then 1 else 0)"
| "py_int (StrV s) = Raises ValueError"
| "py_int (EnumV t k) = Raises TypeError"

text \<open>Python's \<^verbatim>\<open>bool(v)\<close>: non-zero, non-empty; an enumeration member is true.\<close>

fun py_bool :: "val \<Rightarrow> bool" where
  "py_bool (IntV i) = (i \<noteq> 0)"
| "py_bool (BoolV b) = b"
| "py_bool (StrV s) = (s \<noteq> [])"
| "py_bool (EnumV t k) = True"

text \<open>
  A value used as a number without a conversion (a cast width that
  \<^verbatim>\<open>resolve_cast_width\<close> took from \<^verbatim>\<open>get_value\<close> and that \<^verbatim>\<open>max\<close> and \<^verbatim>\<open><<\<close> then
  receive): an \<^verbatim>\<open>int\<close>, or a \<^verbatim>\<open>bool\<close> standing for 0 or 1; anything else is a
  \<^verbatim>\<open>TypeError\<close>.
\<close>

fun as_number :: "val \<Rightarrow> int outcome" where
  "as_number (IntV i) = Returns i"
| "as_number (BoolV b) = Returns (if b then 1 else 0)"
| "as_number (StrV s) = Raises TypeError"
| "as_number (EnumV t k) = Raises TypeError"

subsection \<open>Expression nodes\<close>

datatype binop = Add | Sub | Mult | Div | Mod | BitwiseAnd | BitwiseOr | BitwiseXor | BitwiseXnor
datatype unop = UnaryPlus | UnaryMinus | BitwiseInvert
datatype relop = Eq | Neq | Lt | Gt | Leq | Geq
datatype redop = AndReduce | NandReduce | OrReduce | NorReduce | XorReduce | XnorReduce | BoolNot
datatype boolop = BoolAnd | BoolOr
datatype shiftop = Exponent | LShift | RShift

text \<open>
  Every constructor starts with the object's identity and its \<^verbatim>\<open>err_ctx\<close>, followed by the
  constructor arguments of the class. \<open>IntLiteral a c v w\<close> is
  \<^verbatim>\<open>IntLiteral(err_ctx, val, width)\<close>; \<open>WidthCast a c v w_expr w_int\<close> is
  \<^verbatim>\<open>WidthCast(err_ctx, v, w_expr, w_int)\<close>, with \<open>None\<close> for an absent \<^verbatim>\<open>w_expr\<close>.
\<close>

datatype expr =
    IntLiteral addr err_ctx int int
  | BuiltinEnumLiteral addr err_ctx enum_type nat
  | StringLiteral addr err_ctx string
  | BinaryIntExpr binop addr err_ctx expr expr
  | UnaryIntExpr unop addr err_ctx expr
  | RelationalExpr relop addr err_ctx expr expr
  | ReductionExpr redop addr err_ctx expr
  | BoolExpr boolop addr err_ctx expr expr
  | ExpShiftExpr shiftop addr err_ctx expr expr
  | TernaryExpr addr err_ctx expr expr expr
  | WidthCast addr err_ctx expr "expr option" int
  | BoolCast addr err_ctx expr
  | AssignmentCast addr err_ctx expr ty

subsection \<open>The mutable attributes\<close>

record store =
  expr_eval_width :: "addr \<Rightarrow> int option"
  cast_width :: "addr \<Rightarrow> int option"

definition empty_store :: store where
  "empty_store = \<lparr>expr_eval_width = (\<lambda>a. None), cast_width = (\<lambda>a. None)\<rparr>"

definition set_width :: "addr \<Rightarrow> int option \<Rightarrow> store \<Rightarrow> store" where
  "set_width a w s = s\<lparr>expr_eval_width := (expr_eval_width s)(a := w)\<rparr>"

definition set_cast_width :: "addr \<Rightarrow> int option \<Rightarrow> store \<Rightarrow> store" where
  "set_cast_width a w s = s\<lparr>cast_width := (cast_width s)(a := w)\<rparr>"

text \<open>
  The constructors: the arguments are built first, then \<^verbatim>\<open>_Expr.__init__\<close> sets
  \<^verbatim>\<open>expr_eval_width\<close> to \<^verbatim>\<open>None\<close>; \<^verbatim>\<open>WidthCast.__init__\<close> sets \<^verbatim>\<open>cast_width\<close> to \<^verbatim>\<open>None\<close>
  when a width expression is given and to \<^verbatim>\<open>w_int\<close> otherwise.
\<close>

fun construct :: "expr \<Rightarrow> store \<Rightarrow> store" where
  "construct (IntLiteral a c v w) s = set_width a None s"
| "construct (BuiltinEnumLiteral a c t k) s = set_width a None s"
| "construct (StringLiteral a c v) s = set_width a None s"
| "construct (BinaryIntExpr bop a c l r) s = set_width a None (construct r (construct l s))"
| "construct (UnaryIntExpr uop a c n) s = set_width a None (construct n s)"
| "construct (RelationalExpr rop a c l r) s = set_width a None (construct r (construct l s))"
| "construct (ReductionExpr dop a c n) s = set_width a None (construct n s)"
| "construct (BoolExpr lop a c l r) s = set_width a None (construct r (construct l s))"
| "construct (ExpShiftExpr sop a c l r) s = set_width a None (construct r (construct l s))"
| "construct (TernaryExpr a c i j k) s =
     set_width a None (construct k (construct j (construct i s)))"
| "construct (WidthCast a c v None w_int) s =
     set_cast_width a (Some w_int) (set_width a None (construct v s))"
| "construct (WidthCast a c v (Some w_expr) w_int) s =
     set_cast_width a None (set_width a None (construct w_expr (construct v s)))"
| "construct (BoolCast a c n) s = set_width a None (construct n s)"
| "construct (AssignmentCast a c v dest_type) s = set_width a None (construct v s)"

subsection \<open>Truncation\<close>

text \<open>
  \<^verbatim>\<open>_Expr.trunc\<close>: \<^verbatim>\<open>mask = (1 << self.expr_eval_width) - 1; return v & mask\<close>. The shift raises
  \<^verbatim>\<open>TypeError\<close> on \<^verbatim>\<open>None\<close> and \<^verbatim>\<open>ValueError\<close> on a negative count.
\<close>

definition trunc :: "store \<Rightarrow> addr \<Rightarrow> int \<Rightarrow> int outcome" where
  "trunc s a v =
     (case expr_eval_width s a of
        None \<Rightarrow> Raises TypeError
      | Some w \<Rightarrow> if w < 0 then Raises ValueError
                  else Returns (v AND (push_bit (nat w) 1 - 1)))"

subsection \<open>Type prediction\<close>

definition numeric_like :: "ty \<Rightarrow> bool" where
  "numeric_like t = (t = Int_t \<or> t = Bool_t \<or> t = Bit_t)"

text \<open>\<^verbatim>\<open>if(op.predict_type() not in [int, bool, tp.Bit]): raise RDLCompileError(msg, self.err_ctx)\<close>\<close>

definition require_numeric :: "ty outcome \<Rightarrow> string \<Rightarrow> err_ctx \<Rightarrow> unit outcome" where
  "require_numeric r msg c =
     and_then r (\<lambda>t. if numeric_like t then Returns () else Raises (RDLCompileError msg c))"

fun predict_type :: "expr \<Rightarrow> store \<Rightarrow> ty outcome" where
  "predict_type (IntLiteral a c v w) s = Returns Int_t"
| "predict_type (BuiltinEnumLiteral a c t k) s = Returns (Enum_t t)"
| "predict_type (StringLiteral a c v) s = Returns Str_t"
| "predict_type (BinaryIntExpr bop a c l r) s =
     and_then (require_numeric (predict_type l s)
        ''Left operand of expression is not a compatible numeric type'' c) (\<lambda>u.
     and_then (require_numeric (predict_type r s)
        ''Right operand of expression is not a compatible numeric type'' c) (\<lambda>u.
     Returns Int_t))"
| "predict_type (UnaryIntExpr uop a c n) s =
     and_then (require_numeric (predict_type n s)
        ''Operand of expression is not a compatible numeric type'' c) (\<lambda>u.
     Returns Int_t)"
| "predict_type (RelationalExpr rop a c l r) s =
     and_then (require_numeric (predict_type l s)
        ''Left operand of expression is not a compatible numeric type'' c) (\<lambda>u.
     and_then (require_numeric (predict_type r s)
        ''Right operand of expression is not a compatible numeric type'' c) (\<lambda>u.
     Returns Bool_t))"
| "predict_type (ReductionExpr dop a c n) s =
     and_then (require_numeric (predict_type n s)
        ''Operand of expression is not a compatible numeric type'' c) (\<lambda>u.
     Returns Int_t)"
| "predict_type (BoolExpr lop a c l r) s =
     and_then (require_numeric (predict_type l s)
        ''Left operand of expression is not a compatible boolean type'' c) (\<lambda>u.
     and_then (require_numeric (predict_type r s)
        ''Right operand of expression is not a compatible boolean type'' c) (\<lambda>u.
     Returns Bool_t))"
| "predict_type (ExpShiftExpr sop a c l r) s =
     and_then (require_numeric (predict_type l s)
        ''Left operand of expression is not a compatible numeric type'' c) (\<lambda>u.
     and_then (require_numeric (predict_type r s)
        ''Right operand of expression is not a compatible numeric type'' c) (\<lambda>u.
     Returns Int_t))"
| "predict_type (TernaryExpr a c i j k) s =
     and_then (require_numeric (predict_type i s)
        ''Conditional operand of expression is not a compatible boolean type'' c) (\<lambda>u.
     and_then (predict_type j s) (\<lambda>t_j.
     and_then (predict_type k s) (\<lambda>t_k.
       if (t_j = Int_t \<or> t_j = Bool_t) \<and> (t_k = Int_t \<or> t_k = Bool_t) then Returns Int_t
       else if t_j \<noteq> t_k then
         Raises (RDLCompileError
           ''True/False results of ternary conditional are not compatible types'' c)
       else Returns t_j)))"
| "predict_type (WidthCast a c v w_expr w_int) s =
     and_then
       (case cast_width s a of
          Some cw \<Rightarrow> Returns ()
        | None \<Rightarrow>
            (case w_expr of
               None \<Rightarrow> Raises IndexError
             | Some wx \<Rightarrow> require_numeric (predict_type wx s)
                 ''Width operand of cast expression is not a compatible numeric type'' c)) (\<lambda>u.
     and_then (require_numeric (predict_type v s)
        ''Value operand of cast expression cannot be cast to an integer'' c) (\<lambda>u.
     Returns Int_t))"
| "predict_type (BoolCast a c n) s =
     and_then (require_numeric (predict_type n s)
        ''Value operand of cast expression cannot be cast to a boolean'' c) (\<lambda>u.
     Returns Bool_t)"
| "predict_type (AssignmentCast a c v dest_type) s =
     and_then (predict_type v s) (\<lambda>op_type.
       if numeric_like dest_type then
         (if numeric_like op_type then Returns dest_type
          else Raises (RDLCompileError
            ''Assignment is not compatible with the destination type'' c))
       else if dest_type = Array_t then
         (if op_type \<noteq> Array_t then
            Raises (RDLCompileError
              ''Assignment is not compatible with the destination type'' c)
          else Raises NotImplementedError)
       else if dest_type \<noteq> op_type then
         Raises (RDLCompileError
           ''Assignment is not compatible with the destination type'' c)
       else Returns dest_type)"

subsection \<open>Evaluation\<close>

text \<open>The operators, on the integers \<^verbatim>\<open>get_ops\<close> returns. \<^verbatim>\<open>//\<close> and \<^verbatim>\<open>%\<close> raise on a zero divisor.\<close>

fun binop_result :: "binop \<Rightarrow> int \<Rightarrow> int \<Rightarrow> int outcome" where
  "binop_result Add l r = Returns (l + r)"
| "binop_result Sub l r = Returns (l - r)"
| "binop_result Mult l r = Returns (l * r)"
| "binop_result Div l r = (if r = 0 then Raises ZeroDivisionError else Returns (l div r))"
| "binop_result Mod l r = (if r = 0 then Raises ZeroDivisionError else Returns (l mod r))"
| "binop_result BitwiseAnd l r = Returns (l AND r)"
| "binop_result BitwiseOr l r = Returns (l OR r)"
| "binop_result BitwiseXor l r = Returns (l XOR r)"
| "binop_result BitwiseXnor l r = Returns (l XOR (NOT r))"

fun unop_result :: "unop \<Rightarrow> int \<Rightarrow> int" where
  "unop_result UnaryPlus n = n"
| "unop_result UnaryMinus n = - n"
| "unop_result BitwiseInvert n = NOT n"

fun relop_result :: "relop \<Rightarrow> int \<Rightarrow> int \<Rightarrow> bool" where
  "relop_result Eq l r = (l = r)"
| "relop_result Neq l r = (l \<noteq> r)"
| "relop_result Lt l r = (l < r)"
| "relop_result Gt l r = (l > r)"
| "relop_result Leq l r = (l \<le> r)"
| "relop_result Geq l r = (l \<ge> r)"

fun boolop_result :: "boolop \<Rightarrow> bool \<Rightarrow> bool \<Rightarrow> bool" where
  "boolop_result BoolAnd l r = (l \<and> r)"
| "boolop_result BoolOr l r = (l \<or> r)"

text \<open>
  \<^verbatim>\<open>int(l ** r)\<close>, \<^verbatim>\<open>l << r\<close>, \<^verbatim>\<open>l >> r\<close>. A negative shift count raises \<^verbatim>\<open>ValueError\<close>. With a
  negative exponent Python computes a float (\<^verbatim>\<open>ZeroDivisionError\<close> when the base is 0);
  floating point is outside this model, which stops there with \<open>FloatResult\<close>.
\<close>

fun shiftop_result :: "shiftop \<Rightarrow> int \<Rightarrow> int \<Rightarrow> int outcome" where
  "shiftop_result Exponent l r =
     (if 0 \<le> r then Returns (l ^ nat r)
      else if l = 0 then Raises ZeroDivisionError else Raises FloatResult)"
| "shiftop_result LShift l r = (if r < 0 then Raises ValueError else Returns (push_bit (nat r) l))"
| "shiftop_result RShift l r = (if r < 0 then Raises ValueError else Returns (drop_bit (nat r) l))"

text \<open>
  The loop of \<^verbatim>\<open>XorReduce.get_value\<close> and \<^verbatim>\<open>XnorReduce.get_value\<close>:
  \<^verbatim>\<open>while(n): if(n & 1): v ^= 1; n >>= 1\<close>. It may not end, so not returning is \<open>None\<close>. The
  third argument counts the iterations; the source has no such counter, and the result of
  the loop is the first component.
\<close>

partial_function (option) parity_loop :: "int \<Rightarrow> int \<Rightarrow> nat \<Rightarrow> (int \<times> nat) option" where
  "parity_loop n v k =
     (if n \<noteq> 0 then parity_loop (drop_bit 1 n) (if n AND 1 \<noteq> 0 then v XOR 1 else v) (Suc k)
      else Some (v, k))"

declare parity_loop.simps [code]

text \<open>
  The reduction operators on \<^verbatim>\<open>n = int(self.op[0].get_value())\<close>; only \<^verbatim>\<open>AndReduce\<close>
  truncates. (\<^verbatim>\<open>BoolNot\<close> does not take this path, see \<open>get_value\<close>.)
\<close>

fun reduction_result :: "redop \<Rightarrow> store \<Rightarrow> addr \<Rightarrow> int \<Rightarrow> val outcome" where
  "reduction_result AndReduce s a n =
     and_then (trunc s a (NOT n)) (\<lambda>m. Returns (IntV (if m = 0 then 1 else 0)))"
| "reduction_result NandReduce s a n = Returns (IntV (if n \<noteq> 0 then 1 else 0))"
| "reduction_result OrReduce s a n = Returns (IntV (if n \<noteq> 0 then 1 else 0))"
| "reduction_result NorReduce s a n = Returns (IntV (if n = 0 then 1 else 0))"
| "reduction_result XorReduce s a n =
     and_then (of_loop (parity_loop n 0 0)) (\<lambda>r. Returns (IntV (fst r)))"
| "reduction_result XnorReduce s a n =
     and_then (of_loop (parity_loop n 1 0)) (\<lambda>r. Returns (IntV (fst r)))"
| "reduction_result BoolNot s a n = Raises AttributeError"

text \<open>
  The truth value of a node object, as \<^verbatim>\<open>not self.op[0]\<close> asks for it: the classes of this
  module define neither \<^verbatim>\<open>__bool__\<close> nor \<^verbatim>\<open>__len__\<close>, so every node is true.
\<close>

definition object_truth :: "expr \<Rightarrow> bool" where
  "object_truth e = True"

text \<open>\<^verbatim>\<open>int(op.get_value())\<close> and \<^verbatim>\<open>bool(op.get_value())\<close>, on the outcome of the call.\<close>

definition to_int :: "(val \<times> store) outcome \<Rightarrow> (int \<times> store) outcome" where
  "to_int r = and_then r (\<lambda>(x, s). and_then (py_int x) (\<lambda>i. Returns (i, s)))"

definition to_bool :: "(val \<times> store) outcome \<Rightarrow> (bool \<times> store) outcome" where
  "to_bool r = and_then r (\<lambda>(x, s). Returns (py_bool x, s))"

fun get_value :: "expr \<Rightarrow> store \<Rightarrow> (val \<times> store) outcome" where
  "get_value (IntLiteral a c v w) s = Returns (IntV v, s)"
| "get_value (BuiltinEnumLiteral a c t k) s = Returns (EnumV t k, s)"
| "get_value (StringLiteral a c v) s = Returns (StrV v, s)"
| "get_value (BinaryIntExpr bop a c l r) s =
     and_then (to_int (get_value l s)) (\<lambda>(x, s1).
     and_then (to_int (get_value r s1)) (\<lambda>(y, s2).
     and_then (binop_result bop x y) (\<lambda>z.
     and_then (trunc s2 a z) (\<lambda>m. Returns (IntV m, s2)))))"
| "get_value (UnaryIntExpr uop a c n) s =
     and_then (to_int (get_value n s)) (\<lambda>(x, s1).
     and_then (trunc s1 a (unop_result uop x)) (\<lambda>m. Returns (IntV m, s1)))"
| "get_value (RelationalExpr rop a c l r) s =
     and_then (to_int (get_value l s)) (\<lambda>(x, s1).
     and_then (to_int (get_value r s1)) (\<lambda>(y, s2).
     Returns (BoolV (relop_result rop x y), s2)))"
| "get_value (ReductionExpr dop a c n) s =
     (if dop = BoolNot then Returns (BoolV (\<not> object_truth n), s)
      else
        and_then (to_int (get_value n s)) (\<lambda>(x, s1).
        and_then (reduction_result dop s1 a x) (\<lambda>z. Returns (z, s1))))"
| "get_value (BoolExpr lop a c l r) s =
     and_then (to_bool (get_value l s)) (\<lambda>(x, s1).
     and_then (to_bool (get_value r s1)) (\<lambda>(y, s2).
     Returns (BoolV (boolop_result lop x y), s2)))"
| "get_value (ExpShiftExpr sop a c l r) s =
     and_then (to_int (get_value l s)) (\<lambda>(x, s1).
     and_then (to_int (get_value r s1)) (\<lambda>(y, s2).
     and_then (shiftop_result sop x y) (\<lambda>z.
     and_then (trunc s2 a z) (\<lambda>m. Returns (IntV m, s2)))))"
| "get_value (TernaryExpr a c i j k) s =
     and_then (to_bool (get_value i s)) (\<lambda>(b, s1).
     and_then (get_value j s1) (\<lambda>(x, s2).
     and_then (get_value k s2) (\<lambda>(y, s3).
     Returns (if b then x else y, s3))))"
| "get_value (WidthCast a c v w_expr w_int) s =
     and_then (to_int (get_value v s)) (\<lambda>(n, s1).
     and_then (trunc (set_width a (cast_width s1 a) s1) a n) (\<lambda>m.
     Returns (IntV m, set_width a (cast_width s1 a) s1)))"
| "get_value (BoolCast a c n) s =
     and_then (to_int (get_value n s)) (\<lambda>(x, s1). Returns (BoolV (x \<noteq> 0), s1))"
| "get_value (AssignmentCast a c v dest_type) s =
     and_then (get_value v s) (\<lambda>(x, s1).
       if dest_type = Bool_t then Returns (BoolV (py_bool x), s1)
       else if dest_type = Bit_t then and_then (py_int x) (\<lambda>i. Returns (IntV (i AND 1), s1))
       else Returns (x, s1))"

subsection \<open>Width resolution\<close>

text \<open>\<^verbatim>\<open>self.expr_eval_width = max(self.expr_eval_width, w)\<close>; \<^verbatim>\<open>max\<close> raises on \<^verbatim>\<open>None\<close>.\<close>

definition widen :: "addr \<Rightarrow> int \<Rightarrow> store \<Rightarrow> store outcome" where
  "widen a w s =
     (case expr_eval_width s a of
        None \<Rightarrow> Raises TypeError
      | Some cur \<Rightarrow> Returns (set_width a (Some (max cur w)) s))"

text \<open>\<^verbatim>\<open>return(self.cast_width)\<close> where the caller uses the result as a number.\<close>

definition cast_width_of :: "addr \<Rightarrow> store \<Rightarrow> (int \<times> store) outcome" where
  "cast_width_of a s =
     (case cast_width s a of None \<Rightarrow> Raises TypeError | Some cw \<Rightarrow> Returns (cw, s))"

text \<open>
  The four methods that resolve widths call each other. \<^verbatim>\<open>resolve_expr_width\<close> of the
  classes that do not override it is \<^verbatim>\<open>_Expr.resolve_expr_width\<close>, written out for no, one
  and two operands; likewise \<^verbatim>\<open>_Expr.propagate_eval_width\<close>. \<^verbatim>\<open>resolve_cast_width\<close> is a
  method of \<^verbatim>\<open>WidthCast\<close> only.

  \<^verbatim>\<open>resolve_cast_width\<close> stores what \<^verbatim>\<open>get_value\<close> of the width expression returned; the
  model stores it as a number and raises \<^verbatim>\<open>TypeError\<close> there for a value that is none (in
  Python the error comes at the first use of the stored value as a number).
\<close>

fun resolve_expr_width :: "expr \<Rightarrow> store \<Rightarrow> store outcome"
  and get_min_eval_width :: "expr \<Rightarrow> store \<Rightarrow> (int \<times> store) outcome"
  and propagate_eval_width :: "expr \<Rightarrow> int option \<Rightarrow> store \<Rightarrow> store outcome"
  and resolve_cast_width :: "expr \<Rightarrow> store \<Rightarrow> store outcome"
where
  "resolve_expr_width (IntLiteral a c v w) s = Returns (set_width a (Some 1) s)"
| "resolve_expr_width (BuiltinEnumLiteral a c t k) s = Returns (set_width a (Some 1) s)"
| "resolve_expr_width (StringLiteral a c v) s = Returns (set_width a (Some 1) s)"
| "resolve_expr_width (BinaryIntExpr bop a c l r) s =
     and_then (get_min_eval_width l (set_width a (Some 1) s)) (\<lambda>(w0, s1).
     and_then (widen a w0 s1) (\<lambda>s2.
     and_then (get_min_eval_width r s2) (\<lambda>(w1, s3).
     and_then (widen a w1 s3) (\<lambda>s4.
     and_then (propagate_eval_width l (expr_eval_width s4 a) s4) (\<lambda>s5.
     propagate_eval_width r (expr_eval_width s5 a) s5)))))"
| "resolve_expr_width (UnaryIntExpr uop a c n) s =
     and_then (get_min_eval_width n (set_width a (Some 1) s)) (\<lambda>(w0, s1).
     and_then (widen a w0 s1) (\<lambda>s2.
     propagate_eval_width n (expr_eval_width s2 a) s2))"
| "resolve_expr_width (RelationalExpr rop a c l r) s =
     and_then (get_min_eval_width l (set_width a (Some 1) s)) (\<lambda>(w0, s1).
     and_then (widen a w0 s1) (\<lambda>s2.
     and_then (get_min_eval_width r s2) (\<lambda>(w1, s3).
     and_then (widen a w1 s3) (\<lambda>s4.
     and_then (propagate_eval_width l (expr_eval_width s4 a) s4) (\<lambda>s5.
     propagate_eval_width r (expr_eval_width s5 a) s5)))))"
| "resolve_expr_width (ReductionExpr dop a c n) s =
     and_then (get_min_eval_width n (set_width a (Some 1) s)) (\<lambda>(w0, s1).
     and_then (widen a w0 s1) (\<lambda>s2.
     propagate_eval_width n (expr_eval_width s2 a) s2))"
| "resolve_expr_width (BoolExpr lop a c l r) s = Returns s"
| "resolve_expr_width (ExpShiftExpr sop a c l r) s =
     and_then (get_min_eval_width l s) (\<lambda>(w0, s1).
     propagate_eval_width l (Some w0) (set_width a (Some w0) s1))"
| "resolve_expr_width (TernaryExpr a c i j k) s =
     and_then (get_min_eval_width j s) (\<lambda>(wj, s1).
     and_then (get_min_eval_width k s1) (\<lambda>(wk, s2).
     and_then (propagate_eval_width j (Some (max 1 (max wj wk)))
                 (set_width a (Some (max 1 (max wj wk))) s2)) (\<lambda>s3.
     propagate_eval_width k (expr_eval_width s3 a) s3)))"
| "resolve_expr_width (WidthCast a c v w_expr w_int) s =
     and_then (resolve_cast_width (WidthCast a c v w_expr w_int) s) (\<lambda>s1.
     and_then (get_min_eval_width v (set_width a (cast_width s1 a) s1)) (\<lambda>(w0, s2).
     and_then (widen a w0 s2) (\<lambda>s3.
     propagate_eval_width v (expr_eval_width s3 a) s3)))"
| "resolve_expr_width (BoolCast a c n) s =
     and_then (get_min_eval_width n (set_width a (Some 1) s)) (\<lambda>(w0, s1).
     and_then (widen a w0 s1) (\<lambda>s2.
     propagate_eval_width n (expr_eval_width s2 a) s2))"
| "resolve_expr_width (AssignmentCast a c v dest_type) s =
     and_then (get_min_eval_width v (set_width a (Some 1) s)) (\<lambda>(w0, s1).
     and_then (widen a w0 s1) (\<lambda>s2.
     propagate_eval_width v (expr_eval_width s2 a) s2))"

| "get_min_eval_width (IntLiteral a c v w) s = Returns (w, s)"
| "get_min_eval_width (BuiltinEnumLiteral a c t k) s = Returns (1, s)"
| "get_min_eval_width (StringLiteral a c v) s = Returns (1, s)"
| "get_min_eval_width (BinaryIntExpr bop a c l r) s =
     and_then (get_min_eval_width l s) (\<lambda>(w0, s1).
     and_then (get_min_eval_width r s1) (\<lambda>(w1, s2).
     Returns (max w0 w1, s2)))"
| "get_min_eval_width (UnaryIntExpr uop a c n) s = get_min_eval_width n s"
| "get_min_eval_width (RelationalExpr rop a c l r) s = Returns (1, s)"
| "get_min_eval_width (ReductionExpr dop a c n) s = Returns (1, s)"
| "get_min_eval_width (BoolExpr lop a c l r) s = Returns (1, s)"
| "get_min_eval_width (ExpShiftExpr sop a c l r) s = get_min_eval_width l s"
| "get_min_eval_width (TernaryExpr a c i j k) s =
     and_then (get_min_eval_width j s) (\<lambda>(wj, s1).
     and_then (get_min_eval_width k s1) (\<lambda>(wk, s2).
     Returns (max wj wk, s2)))"
| "get_min_eval_width (WidthCast a c v w_expr w_int) s =
     and_then (resolve_cast_width (WidthCast a c v w_expr w_int) s) (\<lambda>s1.
     cast_width_of a s1)"
| "get_min_eval_width (BoolCast a c n) s = Returns (1, s)"
| "get_min_eval_width (AssignmentCast a c v dest_type) s = get_min_eval_width v s"

| "propagate_eval_width (IntLiteral a c v w) pw s = Returns (set_width a pw s)"
| "propagate_eval_width (BuiltinEnumLiteral a c t k) pw s = Returns (set_width a pw s)"
| "propagate_eval_width (StringLiteral a c v) pw s = Returns (set_width a pw s)"
| "propagate_eval_width (BinaryIntExpr bop a c l r) pw s =
     and_then (propagate_eval_width l pw (set_width a pw s)) (\<lambda>s1.
     propagate_eval_width r pw s1)"
| "propagate_eval_width (UnaryIntExpr uop a c n) pw s =
     propagate_eval_width n pw (set_width a pw s)"
| "propagate_eval_width (RelationalExpr rop a c l r) pw s =
     resolve_expr_width (RelationalExpr rop a c l r) s"
| "propagate_eval_width (ReductionExpr dop a c n) pw s =
     resolve_expr_width (ReductionExpr dop a c n) s"
| "propagate_eval_width (BoolExpr lop a c l r) pw s =
     and_then (resolve_expr_width l s) (\<lambda>s1. resolve_expr_width r s1)"
| "propagate_eval_width (ExpShiftExpr sop a c l r) pw s =
     and_then (propagate_eval_width l pw (set_width a pw s)) (\<lambda>s1.
     resolve_expr_width r s1)"
| "propagate_eval_width (TernaryExpr a c i j k) pw s =
     and_then (propagate_eval_width j pw (set_width a pw s)) (\<lambda>s1.
     and_then (propagate_eval_width k pw s1) (\<lambda>s2.
     resolve_expr_width i s2))"
| "propagate_eval_width (WidthCast a c v w_expr w_int) pw s =
     resolve_expr_width (WidthCast a c v w_expr w_int) s"
| "propagate_eval_width (BoolCast a c n) pw s = resolve_expr_width (BoolCast a c n) s"
| "propagate_eval_width (AssignmentCast a c v dest_type) pw s =
     resolve_expr_width (AssignmentCast a c v dest_type) s"

| "resolve_cast_width (WidthCast a c v None w_int) s =
     (case cast_width s a of None \<Rightarrow> Raises IndexError | Some cw \<Rightarrow> Returns s)"
| "resolve_cast_width (WidthCast a c v (Some wx) w_int) s =
     (case cast_width s a of
        Some cw \<Rightarrow> Returns s
      | None \<Rightarrow>
          and_then (resolve_expr_width wx s) (\<lambda>s1.
          and_then (get_value wx s1) (\<lambda>(x, s2).
          and_then (as_number x) (\<lambda>i. Returns (set_cast_width a (Some i) s2)))))"
| "resolve_cast_width (IntLiteral a c v w) s = Raises AttributeError"
| "resolve_cast_width (BuiltinEnumLiteral a c t k) s = Raises AttributeError"
| "resolve_cast_width (StringLiteral a c v) s = Raises AttributeError"
| "resolve_cast_width (BinaryIntExpr bop a c l r) s = Raises AttributeError"
| "resolve_cast_width (UnaryIntExpr uop a c n) s = Raises AttributeError"
| "resolve_cast_width (RelationalExpr rop a c l r) s = Raises AttributeError"
| "resolve_cast_width (ReductionExpr dop a c n) s = Raises AttributeError"
| "resolve_cast_width (BoolExpr lop a c l r) s = Raises AttributeError"
| "resolve_cast_width (ExpShiftExpr sop a c l r) s = Raises AttributeError"
| "resolve_cast_width (TernaryExpr a c i j k) s = Raises AttributeError"
| "resolve_cast_width (BoolCast a c n) s = Raises AttributeError"
| "resolve_cast_width (AssignmentCast a c v dest_type) s = Raises AttributeError"

subsection \<open>The consumer's sequence\<close>

text \<open>
  The caller builds the tree, calls \<^verbatim>\<open>resolve_expr_width\<close> once at the root and then
  \<^verbatim>\<open>get_value\<close>. \<open>resolved\<close> is the store after the first two steps on a fresh tree,
  \<open>value_after_resolution\<close> the value the third returns.
\<close>

definition resolved :: "expr \<Rightarrow> store outcome" where
  "resolved e = resolve_expr_width e (construct e empty_store)"

definition value_after_resolution :: "expr \<Rightarrow> val outcome" where
  "value_after_resolution e =
     and_then (resolved e) (\<lambda>s. and_then (get_value e s) (\<lambda>(x, s'). Returns x))"

definition predicted :: "expr \<Rightarrow> ty outcome" where
  "predicted e = predict_type e (construct e empty_store)"

definition width_after_resolution :: "expr \<Rightarrow> addr \<Rightarrow> int option outcome" where
  "width_after_resolution e a = and_then (resolved e) (\<lambda>s. Returns (expr_eval_width s a))"

definition width_after_evaluation :: "expr \<Rightarrow> addr \<Rightarrow> int option outcome" where
  "width_after_evaluation e a =
     and_then (resolved e) (\<lambda>s.
     and_then (get_value e s) (\<lambda>(x, s'). Returns (expr_eval_width s' a)))"

text \<open>
  The classes whose \<^verbatim>\<open>propagate_eval_width\<close> starts a new context: relational, reduction,
  logical boolean, and the three casts.
\<close>

fun starts_own_context :: "expr \<Rightarrow> bool" where
  "starts_own_context (RelationalExpr rop a c l r) = True"
| "starts_own_context (ReductionExpr dop a c n) = True"
| "starts_own_context (BoolExpr lop a c l r) = True"
| "starts_own_context (WidthCast a c v w_expr w_int) = True"
| "starts_own_context (BoolCast a c n) = True"
| "starts_own_context (AssignmentCast a c v dest_type) = True"
| "starts_own_context (IntLiteral a c v w) = False"
| "starts_own_context (BuiltinEnumLiteral a c t k) = False"
| "starts_own_context (StringLiteral a c v) = False"
| "starts_own_context (BinaryIntExpr bop a c l r) = False"
| "starts_own_context (UnaryIntExpr uop a c n) = False"
| "starts_own_context (ExpShiftExpr sop a c l r) = False"
| "starts_own_context (TernaryExpr a c i j k) = False"

subsection \<open>Reference notions for the properties\<close>

text \<open>
  The spec's words for division, "truncating toward zero": the quotient of the magnitudes
  with the sign of the exact quotient, and the remainder that goes with it. They are what
  the source is compared with, not a translation of it.
\<close>

definition trunc_quotient :: "int \<Rightarrow> int \<Rightarrow> int" where
  "trunc_quotient l r = sgn l * sgn r * (\<bar>l\<bar> div \<bar>r\<bar>)"

definition trunc_remainder :: "int \<Rightarrow> int \<Rightarrow> int" where
  "trunc_remainder l r = l - r * trunc_quotient l r"

text \<open>
  By how much rounding toward negative infinity lies below rounding toward zero: 1 when the
  operands have opposite signs and the division leaves a remainder, 0 otherwise.
\<close>

definition floor_adjust :: "int \<Rightarrow> int \<Rightarrow> int" where
  "floor_adjust l r = (if (l < 0) \<noteq> (r < 0) \<and> l mod r \<noteq> 0 then 1 else 0)"

text \<open>
  Every \<^verbatim>\<open>WidthCast\<close> that \<^verbatim>\<open>get_min_eval_width\<close> reaches from this node has its cast width
  stored. The recursion is the one of \<^verbatim>\<open>get_min_eval_width\<close>: both operands of a binary
  operator, the left operand of a shift, the two branches of a ternary, the operand of a
  unary operator and of an assignment cast; a \<^verbatim>\<open>WidthCast\<close> answers from its own cast width
  and the other classes answer 1.
\<close>

fun cast_widths_known :: "expr \<Rightarrow> store \<Rightarrow> bool" where
  "cast_widths_known (IntLiteral a c v w) s = True"
| "cast_widths_known (BuiltinEnumLiteral a c t k) s = True"
| "cast_widths_known (StringLiteral a c v) s = True"
| "cast_widths_known (BinaryIntExpr bop a c l r) s =
     (cast_widths_known l s \<and> cast_widths_known r s)"
| "cast_widths_known (UnaryIntExpr uop a c n) s = cast_widths_known n s"
| "cast_widths_known (RelationalExpr rop a c l r) s = True"
| "cast_widths_known (ReductionExpr dop a c n) s = True"
| "cast_widths_known (BoolExpr lop a c l r) s = True"
| "cast_widths_known (ExpShiftExpr sop a c l r) s = cast_widths_known l s"
| "cast_widths_known (TernaryExpr a c i j k) s =
     (cast_widths_known j s \<and> cast_widths_known k s)"
| "cast_widths_known (WidthCast a c v w_expr w_int) s = (cast_width s a \<noteq> None)"
| "cast_widths_known (BoolCast a c n) s = True"
| "cast_widths_known (AssignmentCast a c v dest_type) s = cast_widths_known v s"

section \<open>Properties\<close>

lemmas unfold_evaluation =
  resolved_def value_after_resolution_def predicted_def width_after_resolution_def
  width_after_evaluation_def to_bool_def to_int_def trunc_def widen_def set_width_def
  set_cast_width_def empty_store_def require_numeric_def numeric_like_def cast_width_of_def

subsection \<open>Auxiliary facts\<close>

lemma and_then_Returns:
  "and_then m f = Returns y \<longleftrightarrow> (\<exists>x. m = Returns x \<and> f x = Returns y)"
  by (cases m) auto

lemma to_int_Returns:
  "to_int r = Returns (i, s) \<longleftrightarrow> (\<exists>x. r = Returns (x, s) \<and> py_int x = Returns i)"
  by (cases r) (auto simp: to_int_def and_then_Returns)

lemma to_bool_Returns:
  "to_bool r = Returns (b, s) \<longleftrightarrow> (\<exists>x. r = Returns (x, s) \<and> py_bool x = b)"
  by (cases r) (auto simp: to_bool_def)

lemma cast_width_set_width [simp]: "cast_width (set_width a w s) = cast_width s"
  by (simp add: set_width_def)

text \<open>\<^verbatim>\<open>get_value\<close> assigns \<^verbatim>\<open>expr_eval_width\<close> only: every cast width stays as it was.\<close>

lemma get_value_cast_width:
  "get_value e s = Returns (x, s') \<Longrightarrow> cast_width s' = cast_width s"
proof (induction e arbitrary: s x s')
  case (BinaryIntExpr bop a c l r)
  then show ?case
    by (auto simp: and_then_Returns to_int_Returns)
next
  case (RelationalExpr rop a c l r)
  then show ?case
    by (auto simp: and_then_Returns to_int_Returns)
next
  case (BoolExpr lop a c l r)
  then show ?case
    by (auto simp: and_then_Returns to_bool_Returns)
next
  case (ExpShiftExpr sop a c l r)
  then show ?case
    by (auto simp: and_then_Returns to_int_Returns)
next
  case (TernaryExpr a c i j k)
  then show ?case
    by (auto simp: and_then_Returns to_bool_Returns)
next
  case (AssignmentCast a c v dest_type)
  then show ?case
    by (auto simp: and_then_Returns split: if_splits)
qed (auto simp: and_then_Returns to_int_Returns to_bool_Returns split: if_splits)

text \<open>The mask of \<^verbatim>\<open>trunc\<close> keeps the value modulo \<open>2 ^ w\<close>.\<close>

lemma and_mask_mod: "n AND (2 ^ k - 1) = (n::int) mod 2 ^ k"
  by (simp add: take_bit_eq_mod flip: mask_eq_exp_minus_1 take_bit_eq_mask)

lemma trunc_mod:
  "expr_eval_width s a = Some w \<Longrightarrow> 0 \<le> w \<Longrightarrow> trunc s a n = Returns (n mod 2 ^ nat w)"
  by (simp add: trunc_def and_mask_mod)

text \<open>The parity loop returns only from a non-negative \<open>n\<close>: \<^verbatim>\<open>-1 >> 1\<close> is \<^verbatim>\<open>-1\<close>.\<close>

lemma parity_loop_returns_nonneg:
  assumes "parity_loop n v k = Some y"
  shows "0 \<le> n"
proof (rule parity_loop.raw_induct [where P = "\<lambda>n v k y. 0 \<le> n", OF _ assms])
  fix f :: "int \<Rightarrow> int \<Rightarrow> nat \<Rightarrow> (int \<times> nat) option" and m u j z
  assume IH: "\<And>n v k y. f n v k = Some y \<Longrightarrow> 0 \<le> n"
    and body: "(if m \<noteq> 0 then f (drop_bit 1 m) (if m AND 1 \<noteq> 0 then u XOR 1 else u) (Suc j)
                else Some (u, j)) = Some z"
  show "0 \<le> m"
  proof (cases "m = 0")
    case True
    then show ?thesis by simp
  next
    case False
    with body have "f (drop_bit 1 m) (if m AND 1 \<noteq> 0 then u XOR 1 else u) (Suc j) = Some z"
      by simp
    then have "0 \<le> drop_bit 1 m" by (rule IH)
    then show ?thesis by simp
  qed
qed

lemma parity_loop_negative: "n < 0 \<Longrightarrow> parity_loop n v k = None"
  using parity_loop_returns_nonneg [of n v k] by (cases "parity_loop n v k") auto

lemma parity_loop_255: "parity_loop 255 0 0 = Some (0, 8)" "parity_loop 255 1 0 = Some (1, 8)"
  by (simp_all add: parity_loop.simps)

text \<open>
  What does hold of the loop: from a value that is not negative and fits in \<open>w\<close> bits it
  returns after at most \<open>w\<close> iterations.
\<close>

lemma parity_loop_bounded:
  "0 \<le> n \<Longrightarrow> n < 2 ^ w \<Longrightarrow> \<exists>v' j. parity_loop n v k = Some (v', k + j) \<and> j \<le> w"
proof (induction w arbitrary: n v k)
  case 0
  then have "n = 0" by simp
  then have "parity_loop n v k = Some (v, k + 0)"
    by (subst parity_loop.simps) simp
  then show ?case by blast
next
  case (Suc w)
  show ?case
  proof (cases "n = 0")
    case True
    then have "parity_loop n v k = Some (v, k + 0)"
      by (subst parity_loop.simps) simp
    then show ?thesis by blast
  next
    case False
    let ?u = "if n AND 1 \<noteq> 0 then v XOR 1 else v"
    have "0 \<le> drop_bit 1 n" "drop_bit 1 n < 2 ^ w"
      using Suc.prems by (simp_all add: drop_bit_eq_div)
    from Suc.IH [OF this, of ?u "Suc k"]
    obtain v' j where j: "parity_loop (drop_bit 1 n) ?u (Suc k) = Some (v', Suc k + j)" "j \<le> w"
      by blast
    have "parity_loop n v k = parity_loop (drop_bit 1 n) ?u (Suc k)"
      using False by (subst parity_loop.simps) simp
    with j have "parity_loop n v k = Some (v', k + Suc j)" "Suc j \<le> Suc w"
      by simp_all
    then show ?thesis by blast
  qed
qed

text \<open>
  Python's \<^verbatim>\<open>//\<close> and \<^verbatim>\<open>%\<close> (HOL's \<open>div\<close> and \<open>mod\<close> on \<open>int\<close>) against division that truncates
  toward zero.
\<close>

lemma floor_div_as_trunc:
  assumes "r \<noteq> 0"
  shows "l div r = trunc_quotient l r - floor_adjust l r"
proof -
  consider "l = 0" | "0 < l" "0 < r" | "l < 0" "r < 0" | "0 < l" "r < 0" | "l < 0" "0 < r"
    using assms by linarith
  then show ?thesis
  proof cases
    case 1
    then show ?thesis by (simp add: trunc_quotient_def floor_adjust_def)
  next
    case 2
    then show ?thesis by (simp add: trunc_quotient_def floor_adjust_def)
  next
    case 3
    then have "l div r = (- l) div (- r)" by simp
    with 3 show ?thesis by (simp add: trunc_quotient_def floor_adjust_def)
  next
    case 4
    have "l div r = l div (- (- r))" by simp
    also have "\<dots> = (if l mod (- r) = 0 then - (l div (- r)) else - (l div (- r)) - 1)"
      using 4 by (subst zdiv_zminus2_eq_if) auto
    finally show ?thesis
      using 4 by (auto simp: trunc_quotient_def floor_adjust_def mod_eq_0_iff_dvd)
  next
    case 5
    have "l div r = (- (- l)) div r" by simp
    also have "\<dots> = (if (- l) mod r = 0 then - ((- l) div r) else - ((- l) div r) - 1)"
      using 5 by (subst zdiv_zminus1_eq_if) auto
    finally show ?thesis
      using 5 by (auto simp: trunc_quotient_def floor_adjust_def mod_eq_0_iff_dvd)
  qed
qed

lemma floor_mod_as_trunc:
  assumes "r \<noteq> 0"
  shows "l mod r = trunc_remainder l r + r * floor_adjust l r"
proof -
  have "l mod r = l - r * (l div r)"
    by (simp add: minus_mult_div_eq_mod)
  then show ?thesis
    by (simp add: floor_div_as_trunc [OF assms] trunc_remainder_def algebra_simps)
qed

lemma floor_adjust_same_sign: "0 \<le> l \<Longrightarrow> 0 < r \<Longrightarrow> floor_adjust l r = 0"
  by (simp add: floor_adjust_def)

lemma resolve_cast_width_known:
  "cast_width s a \<noteq> None \<Longrightarrow> resolve_cast_width (WidthCast a c v w_expr w_int) s = Returns s"
  by (cases w_expr) auto

subsection \<open>Width is resolved before truncation\<close>

text \<open>
  C1. The claim: after \<^verbatim>\<open>predict_type\<close>, one \<^verbatim>\<open>resolve_expr_width\<close> at the root and then
  \<^verbatim>\<open>get_value\<close>, every arithmetic node has a width when its value is truncated, also when the
  root is a logical-boolean, shift or ternary node with compound operands.

  The code does not do this. \<^verbatim>\<open>_BoolExpr.resolve_expr_width\<close> does nothing,
  \<^verbatim>\<open>_ExpShiftExpr.resolve_expr_width\<close> leaves the right operand and
  \<^verbatim>\<open>TernaryExpr.resolve_expr_width\<close> the condition untouched, while the
  \<^verbatim>\<open>propagate_eval_width\<close> of the same three classes resolves exactly these operands. For each
  of the three roots below type prediction succeeds, the \<^verbatim>\<open>Add\<close> operand still has width
  \<^verbatim>\<open>None\<close> after resolution, and \<^verbatim>\<open>get_value\<close> raises \<^verbatim>\<open>TypeError\<close> in \<^verbatim>\<open>trunc\<close>.
\<close>

theorem root_resolution_leaves_operand_width_unset:
  "predicted (BoolExpr BoolAnd 0 0
      (BinaryIntExpr Add 1 0 (IntLiteral 2 0 1 64) (IntLiteral 3 0 2 64))
      (IntLiteral 4 0 1 64)) = Returns Bool_t \<and>
   width_after_resolution (BoolExpr BoolAnd 0 0
      (BinaryIntExpr Add 1 0 (IntLiteral 2 0 1 64) (IntLiteral 3 0 2 64))
      (IntLiteral 4 0 1 64)) 1 = Returns None \<and>
   value_after_resolution (BoolExpr BoolAnd 0 0
      (BinaryIntExpr Add 1 0 (IntLiteral 2 0 1 64) (IntLiteral 3 0 2 64))
      (IntLiteral 4 0 1 64)) = Raises TypeError \<and>
   predicted (ExpShiftExpr LShift 0 0
      (IntLiteral 1 0 3 4)
      (BinaryIntExpr Add 2 0 (IntLiteral 3 0 2 64) (IntLiteral 4 0 3 64))) = Returns Int_t \<and>
   width_after_resolution (ExpShiftExpr LShift 0 0
      (IntLiteral 1 0 3 4)
      (BinaryIntExpr Add 2 0 (IntLiteral 3 0 2 64) (IntLiteral 4 0 3 64))) 2 = Returns None \<and>
   value_after_resolution (ExpShiftExpr LShift 0 0
      (IntLiteral 1 0 3 4)
      (BinaryIntExpr Add 2 0 (IntLiteral 3 0 2 64) (IntLiteral 4 0 3 64))) = Raises TypeError \<and>
   predicted (TernaryExpr 0 0
      (BinaryIntExpr Add 1 0 (IntLiteral 2 0 1 64) (IntLiteral 3 0 2 64))
      (IntLiteral 4 0 3 64) (IntLiteral 5 0 5 64)) = Returns Int_t \<and>
   width_after_resolution (TernaryExpr 0 0
      (BinaryIntExpr Add 1 0 (IntLiteral 2 0 1 64) (IntLiteral 3 0 2 64))
      (IntLiteral 4 0 3 64) (IntLiteral 5 0 5 64)) 1 = Returns None \<and>
   value_after_resolution (TernaryExpr 0 0
      (BinaryIntExpr Add 1 0 (IntLiteral 2 0 1 64) (IntLiteral 3 0 2 64))
      (IntLiteral 4 0 3 64) (IntLiteral 5 0 5 64)) = Raises TypeError"
  by (simp add: unfold_evaluation)

subsection \<open>Context isolation\<close>

text \<open>
  C2. A relational, reduction, logical-boolean or cast node ignores the width its enclosing
  context propagates: for any two widths \<open>w1\<close> and \<open>w2\<close>, \<^verbatim>\<open>propagate_eval_width\<close> has the
  same outcome (the same store, so the same width for the node and every node below it,
  or the same error), and \<^verbatim>\<open>get_value\<close> after it has the same result.
\<close>

theorem context_isolation:
  assumes "starts_own_context n"
  shows "propagate_eval_width n w1 s = propagate_eval_width n w2 s \<and>
         and_then (propagate_eval_width n w1 s) (get_value n) =
         and_then (propagate_eval_width n w2 s) (get_value n)"
  using assms by (cases n) simp_all

theorem context_isolation_witness:
  "starts_own_context (RelationalExpr Eq 0 0 (IntLiteral 1 0 5 64) (IntLiteral 2 0 5 3)) \<and>
   propagate_eval_width (RelationalExpr Eq 0 0 (IntLiteral 1 0 5 64) (IntLiteral 2 0 5 3))
     (Some 8) empty_store =
   propagate_eval_width (RelationalExpr Eq 0 0 (IntLiteral 1 0 5 64) (IntLiteral 2 0 5 3))
     (Some 128) empty_store \<and>
   and_then
     (propagate_eval_width (RelationalExpr Eq 0 0 (IntLiteral 1 0 5 64) (IntLiteral 2 0 5 3))
        (Some 8) empty_store)
     (get_value (RelationalExpr Eq 0 0 (IntLiteral 1 0 5 64) (IntLiteral 2 0 5 3))) =
   and_then
     (propagate_eval_width (RelationalExpr Eq 0 0 (IntLiteral 1 0 5 64) (IntLiteral 2 0 5 3))
        (Some 128) empty_store)
     (get_value (RelationalExpr Eq 0 0 (IntLiteral 1 0 5 64) (IntLiteral 2 0 5 3)))"
  using context_isolation
    [of "RelationalExpr Eq 0 0 (IntLiteral 1 0 5 64) (IntLiteral 2 0 5 3)"
        "Some 8" empty_store "Some 128"]
  by simp

subsection \<open>Reduction operators\<close>

text \<open>
  C4. The claim: \<^verbatim>\<open>NandReduce\<close>, \<^verbatim>\<open>NorReduce\<close> and \<^verbatim>\<open>XnorReduce\<close> return the inverse of
  \<^verbatim>\<open>AndReduce\<close>, \<^verbatim>\<open>OrReduce\<close> and \<^verbatim>\<open>XorReduce\<close>.

  \<^verbatim>\<open>NandReduce.get_value\<close> has the body of \<^verbatim>\<open>OrReduce.get_value\<close>. On a 4-bit operand 0 both
  \<^verbatim>\<open>AndReduce\<close> and \<^verbatim>\<open>NandReduce\<close> return 0, on the 4-bit operand 15 both return 1.
\<close>

theorem NandReduce_is_not_the_inverse_of_AndReduce:
  "value_after_resolution (ReductionExpr AndReduce 0 0 (IntLiteral 1 0 0 4)) = Returns (IntV 0) \<and>
   value_after_resolution (ReductionExpr NandReduce 0 0 (IntLiteral 1 0 0 4)) = Returns (IntV 0) \<and>
   value_after_resolution (ReductionExpr AndReduce 0 0 (IntLiteral 1 0 15 4)) = Returns (IntV 1) \<and>
   value_after_resolution (ReductionExpr NandReduce 0 0 (IntLiteral 1 0 15 4)) = Returns (IntV 1)"
  by (simp add: unfold_evaluation)

text \<open>
  C6. The claim: \<^verbatim>\<open>XorReduce.get_value\<close> and \<^verbatim>\<open>XnorReduce.get_value\<close> terminate for every
  operand value, negative literals and values wider than the literal's width included, and
  their loops run at most as many times as the resolved width.

  The loops run on \<^verbatim>\<open>int(self.op[0].get_value())\<close> as it is: \<^verbatim>\<open>IntLiteral.get_value\<close> returns
  \<^verbatim>\<open>val\<close> untruncated and, unlike \<^verbatim>\<open>AndReduce\<close>, neither class calls \<^verbatim>\<open>trunc\<close>. On the literal
  -1 the loops never end. On the literal 255 of width 4 the resolved width is 4 and the loops
  run 8 times.
\<close>

theorem parity_scan_unbounded:
  "value_after_resolution (ReductionExpr XorReduce 0 0 (IntLiteral 1 0 (- 1) 4)) = Diverges \<and>
   value_after_resolution (ReductionExpr XnorReduce 0 0 (IntLiteral 1 0 (- 1) 4)) = Diverges \<and>
   width_after_resolution (ReductionExpr XorReduce 0 0 (IntLiteral 1 0 255 4)) 0 =
     Returns (Some 4) \<and>
   parity_loop 255 0 0 = Some (0, 8) \<and>
   value_after_resolution (ReductionExpr XorReduce 0 0 (IntLiteral 1 0 255 4)) =
     Returns (IntV 0) \<and>
   width_after_resolution (ReductionExpr XnorReduce 0 0 (IntLiteral 1 0 255 4)) 0 =
     Returns (Some 4) \<and>
   parity_loop 255 1 0 = Some (1, 8) \<and>
   value_after_resolution (ReductionExpr XnorReduce 0 0 (IntLiteral 1 0 255 4)) =
     Returns (IntV 1)"
  by (simp add: unfold_evaluation parity_loop_negative parity_loop_255)

text \<open>
  C10. \<^verbatim>\<open>BoolNot.get_value\<close> returns \<^verbatim>\<open>not self.op[0]\<close>: the negation of the operand object,
  which is true like every node. It returns \<^verbatim>\<open>False\<close> for every operand and every state, without
  evaluating the operand.
\<close>

theorem BoolNot_ignores_operand_value:
  "get_value (ReductionExpr BoolNot a c n) s = Returns (BoolV False, s)"
  by (simp add: object_truth_def)

subsection \<open>Width cast\<close>

text \<open>
  C3. A \<^verbatim>\<open>WidthCast\<close> whose cast width is \<open>w\<close> (fixed at construction, or cached since)
  returns the integer value of its operand modulo \<open>2 ^ w\<close>, whatever width the node had; the
  node's width is \<open>w\<close> afterwards. (\<open>w\<close> is a bit count, so not negative: on a negative count
  the shift in \<^verbatim>\<open>trunc\<close> raises.) The witness is the spec's example 4:
  \<^verbatim>\<open>WidthCast(IntLiteral(300, width=64), w_int=8)\<close>, resolved to width 64, evaluates to 44.
\<close>

theorem WidthCast_truncates_to_cast_width:
  assumes "cast_width s a = Some w" and "0 \<le> w"
    and "get_value v s = Returns (x, s1)" and "py_int x = Returns n"
  shows "get_value (WidthCast a c v w_expr w_int) s =
         Returns (IntV (n mod 2 ^ nat w), set_width a (Some w) s1)"
proof -
  have cw: "cast_width s1 a = Some w"
    using get_value_cast_width [OF assms(3)] assms(1) by simp
  have "trunc (set_width a (Some w) s1) a n = Returns (n mod 2 ^ nat w)"
    using assms(2) by (intro trunc_mod) (simp_all add: set_width_def)
  then show ?thesis
    using assms(3,4) cw by (simp add: to_int_def)
qed

theorem WidthCast_truncates_to_cast_width_witness:
  "resolved (WidthCast 0 0 (IntLiteral 1 0 300 64) None 8) =
     Returns \<lparr>expr_eval_width = (\<lambda>a. None)(0 := Some 64, 1 := Some 64),
              cast_width = (\<lambda>a. None)(0 := Some 8)\<rparr> \<and>
   cast_width \<lparr>expr_eval_width = (\<lambda>a. None)(0 := Some 64, 1 := Some 64),
              cast_width = (\<lambda>a. None)(0 := Some 8)\<rparr> 0 = Some 8 \<and>
   (0::int) \<le> 8 \<and>
   get_value (IntLiteral 1 0 300 64)
     \<lparr>expr_eval_width = (\<lambda>a. None)(0 := Some 64, 1 := Some 64),
      cast_width = (\<lambda>a. None)(0 := Some 8)\<rparr> =
     Returns (IntV 300, \<lparr>expr_eval_width = (\<lambda>a. None)(0 := Some 64, 1 := Some 64),
                         cast_width = (\<lambda>a. None)(0 := Some 8)\<rparr>) \<and>
   py_int (IntV 300) = Returns 300 \<and>
   get_value (WidthCast 0 0 (IntLiteral 1 0 300 64) None 8)
     \<lparr>expr_eval_width = (\<lambda>a. None)(0 := Some 64, 1 := Some 64),
      cast_width = (\<lambda>a. None)(0 := Some 8)\<rparr> =
     Returns (IntV 44, \<lparr>expr_eval_width = (\<lambda>a. None)(0 := Some 8, 1 := Some 64),
                        cast_width = (\<lambda>a. None)(0 := Some 8)\<rparr>)"
  using WidthCast_truncates_to_cast_width
    [of "\<lparr>expr_eval_width = (\<lambda>a. None)(0 := Some 64, 1 := Some 64),
          cast_width = (\<lambda>a. None)(0 := Some 8)\<rparr>" 0 8 "IntLiteral 1 0 300 64" "IntV 300"
        "\<lparr>expr_eval_width = (\<lambda>a. None)(0 := Some 64, 1 := Some 64),
          cast_width = (\<lambda>a. None)(0 := Some 8)\<rparr>" 300 0 None 8]
  by (simp add: unfold_evaluation fun_eq_iff)

subsection \<open>Division and modulo\<close>

text \<open>
  C5, as the claim states it: \<^verbatim>\<open>Div\<close> returns the quotient truncated toward zero, \<^verbatim>\<open>Mod\<close> the
  remainder of that division, each then truncated to the width. It fails for a negative
  left operand: at width 8, \<^verbatim>\<open>-7 // 2\<close> gives 252 (the bits of -4) where truncation toward
  zero gives 253 (the bits of -3), and \<^verbatim>\<open>-7 % 2\<close> gives 1 where the truncating remainder -1
  gives 255.
\<close>

theorem Div_rounds_down_counterexample:
  "value_after_resolution (BinaryIntExpr Div 0 0 (IntLiteral 1 0 (- 7) 8) (IntLiteral 2 0 2 8)) =
     Returns (IntV 252) \<and>
   trunc_quotient (- 7) 2 mod 2 ^ 8 = 253 \<and>
   value_after_resolution (BinaryIntExpr Mod 0 0 (IntLiteral 1 0 (- 7) 8) (IntLiteral 2 0 2 8)) =
     Returns (IntV 1) \<and>
   trunc_remainder (- 7) 2 mod 2 ^ 8 = 255"
  by (simp add: unfold_evaluation trunc_quotient_def trunc_remainder_def)

text \<open>
  C5, amended. For integer operand values \<open>l\<close> and \<open>r\<close> with \<open>r\<close> not zero, \<^verbatim>\<open>Div\<close> returns the
  quotient rounded toward negative infinity, truncated to the node's width: the truncating
  quotient, less 1 when the operands have opposite signs and the division leaves a
  remainder. \<^verbatim>\<open>Mod\<close> returns the remainder of that division (the truncating remainder plus
  \<open>r\<close> in the same case), truncated to the width. For operands of the same sign, and for an
  exact division, both are the truncating quotient and remainder.
\<close>

theorem Div_Mod_round_to_negative_infinity:
  assumes "get_value lhs s = Returns (x, s1)" and "py_int x = Returns l"
    and "get_value rhs s1 = Returns (y, s2)" and "py_int y = Returns r" and "r \<noteq> 0"
    and "expr_eval_width s2 a = Some w" and "0 \<le> w"
  shows "get_value (BinaryIntExpr Div a c lhs rhs) s =
           Returns (IntV ((trunc_quotient l r - floor_adjust l r) mod 2 ^ nat w), s2) \<and>
         get_value (BinaryIntExpr Mod a c lhs rhs) s =
           Returns (IntV ((trunc_remainder l r + r * floor_adjust l r) mod 2 ^ nat w), s2)"
proof -
  have ops: "to_int (get_value lhs s) = Returns (l, s1)"
    "to_int (get_value rhs s1) = Returns (r, s2)"
    using assms(1-4) by (simp_all add: to_int_def)
  have tr: "trunc s2 a z = Returns (z mod 2 ^ nat w)" for z
    using assms(6,7) by (rule trunc_mod)
  show ?thesis
    using assms(5)
    by (simp add: ops tr flip: floor_div_as_trunc floor_mod_as_trunc)
qed

theorem Div_Mod_round_to_negative_infinity_witness:
  "get_value (IntLiteral 1 0 (- 7) 8)
     \<lparr>expr_eval_width = (\<lambda>a. None)(0 := Some 8, 1 := Some 8, 2 := Some 8),
      cast_width = (\<lambda>a. None)\<rparr> =
     Returns (IntV (- 7), \<lparr>expr_eval_width = (\<lambda>a. None)(0 := Some 8, 1 := Some 8, 2 := Some 8),
                           cast_width = (\<lambda>a. None)\<rparr>) \<and>
   py_int (IntV (- 7)) = Returns (- 7) \<and>
   get_value (IntLiteral 2 0 2 8)
     \<lparr>expr_eval_width = (\<lambda>a. None)(0 := Some 8, 1 := Some 8, 2 := Some 8),
      cast_width = (\<lambda>a. None)\<rparr> =
     Returns (IntV 2, \<lparr>expr_eval_width = (\<lambda>a. None)(0 := Some 8, 1 := Some 8, 2 := Some 8),
                       cast_width = (\<lambda>a. None)\<rparr>) \<and>
   py_int (IntV 2) = Returns 2 \<and> (2::int) \<noteq> 0 \<and>
   expr_eval_width \<lparr>expr_eval_width = (\<lambda>a. None)(0 := Some 8, 1 := Some 8, 2 := Some 8),
                   cast_width = (\<lambda>a. None)\<rparr> 0 = Some 8 \<and> (0::int) \<le> 8 \<and>
   trunc_quotient (- 7) 2 = - 3 \<and> floor_adjust (- 7) 2 = 1 \<and> trunc_remainder (- 7) 2 = - 1 \<and>
   get_value (BinaryIntExpr Div 0 0 (IntLiteral 1 0 (- 7) 8) (IntLiteral 2 0 2 8))
     \<lparr>expr_eval_width = (\<lambda>a. None)(0 := Some 8, 1 := Some 8, 2 := Some 8),
      cast_width = (\<lambda>a. None)\<rparr> =
     Returns (IntV 252, \<lparr>expr_eval_width = (\<lambda>a. None)(0 := Some 8, 1 := Some 8, 2 := Some 8),
                         cast_width = (\<lambda>a. None)\<rparr>) \<and>
   get_value (BinaryIntExpr Mod 0 0 (IntLiteral 1 0 (- 7) 8) (IntLiteral 2 0 2 8))
     \<lparr>expr_eval_width = (\<lambda>a. None)(0 := Some 8, 1 := Some 8, 2 := Some 8),
      cast_width = (\<lambda>a. None)\<rparr> =
     Returns (IntV 1, \<lparr>expr_eval_width = (\<lambda>a. None)(0 := Some 8, 1 := Some 8, 2 := Some 8),
                       cast_width = (\<lambda>a. None)\<rparr>)"
  using Div_Mod_round_to_negative_infinity
    [of "IntLiteral 1 0 (- 7) 8"
        "\<lparr>expr_eval_width = (\<lambda>a. None)(0 := Some 8, 1 := Some 8, 2 := Some 8),
          cast_width = (\<lambda>a. None)\<rparr>"
        "IntV (- 7)"
        "\<lparr>expr_eval_width = (\<lambda>a. None)(0 := Some 8, 1 := Some 8, 2 := Some 8),
          cast_width = (\<lambda>a. None)\<rparr>"
        "- 7" "IntLiteral 2 0 2 8" "IntV 2"
        "\<lparr>expr_eval_width = (\<lambda>a. None)(0 := Some 8, 1 := Some 8, 2 := Some 8),
          cast_width = (\<lambda>a. None)\<rparr>"
        2 0 8 0]
  by (simp add: trunc_quotient_def floor_adjust_def trunc_remainder_def)

subsection \<open>The minimum width and the state\<close>

text \<open>
  C9, as the claim states it: \<^verbatim>\<open>get_min_eval_width\<close> changes no field of the node or of a
  node below it, also for a \<^verbatim>\<open>WidthCast\<close> whose width is a sub-expression. It fails there:
  \<^verbatim>\<open>WidthCast.get_min_eval_width\<close> calls \<^verbatim>\<open>resolve_cast_width\<close>, which assigns state when the
  cast width is still unset. On
  \<^verbatim>\<open>WidthCast(IntLiteral(5), w_expr=IntLiteral(8))\<close> the call returns 8, \<^verbatim>\<open>cast_width\<close> of the
  cast changes from \<^verbatim>\<open>None\<close> to 8 and \<^verbatim>\<open>expr_eval_width\<close> of the width literal from \<^verbatim>\<open>None\<close>
  to 1.
\<close>

theorem get_min_eval_width_mutates_counterexample:
  "cast_width (construct
      (WidthCast 0 0 (IntLiteral 1 0 5 64) (Some (IntLiteral 2 0 8 64)) 64) empty_store) 0 = None \<and>
   expr_eval_width (construct
      (WidthCast 0 0 (IntLiteral 1 0 5 64) (Some (IntLiteral 2 0 8 64)) 64) empty_store) 2 = None \<and>
   and_then
     (get_min_eval_width (WidthCast 0 0 (IntLiteral 1 0 5 64) (Some (IntLiteral 2 0 8 64)) 64)
        (construct (WidthCast 0 0 (IntLiteral 1 0 5 64) (Some (IntLiteral 2 0 8 64)) 64)
           empty_store))
     (\<lambda>(w, s'). Returns (w, cast_width s' 0, expr_eval_width s' 2)) =
   Returns (8, Some 8, Some 1)"
  by (simp add: unfold_evaluation)

text \<open>
  C9, amended. \<^verbatim>\<open>get_min_eval_width\<close> returns and changes no state for every node from which
  it reaches no \<^verbatim>\<open>WidthCast\<close> with a cast width still unset: every node without a width
  sub-expression, and a cast with one once its width has been stored. The witness is the
  second call on a sum whose left operand is a cast with a width sub-expression: the first
  call, on the freshly constructed tree, stores the cast width 8; the second returns and
  leaves that store as it is.
\<close>

theorem get_min_eval_width_pure_when_cast_widths_known:
  "cast_widths_known e s \<Longrightarrow> \<exists>w. get_min_eval_width e s = Returns (w, s)"
proof (induction e)
  case (WidthCast a c v w_expr w_int)
  then show ?case
    by (auto simp: resolve_cast_width_known cast_width_of_def)
qed auto

theorem get_min_eval_width_pure_when_cast_widths_known_witness:
  "get_min_eval_width
     (BinaryIntExpr Add 0 0 (WidthCast 1 0 (IntLiteral 2 0 5 64) (Some (IntLiteral 3 0 8 64)) 64)
        (IntLiteral 4 0 1 16))
     (construct
        (BinaryIntExpr Add 0 0
           (WidthCast 1 0 (IntLiteral 2 0 5 64) (Some (IntLiteral 3 0 8 64)) 64)
           (IntLiteral 4 0 1 16)) empty_store) =
     Returns (16, \<lparr>expr_eval_width = (\<lambda>a. None)(3 := Some 1),
                   cast_width = (\<lambda>a. None)(1 := Some 8)\<rparr>) \<and>
   cast_widths_known
     (BinaryIntExpr Add 0 0 (WidthCast 1 0 (IntLiteral 2 0 5 64) (Some (IntLiteral 3 0 8 64)) 64)
        (IntLiteral 4 0 1 16))
     \<lparr>expr_eval_width = (\<lambda>a. None)(3 := Some 1), cast_width = (\<lambda>a. None)(1 := Some 8)\<rparr> \<and>
   (\<exists>w. get_min_eval_width
     (BinaryIntExpr Add 0 0 (WidthCast 1 0 (IntLiteral 2 0 5 64) (Some (IntLiteral 3 0 8 64)) 64)
        (IntLiteral 4 0 1 16))
     \<lparr>expr_eval_width = (\<lambda>a. None)(3 := Some 1), cast_width = (\<lambda>a. None)(1 := Some 8)\<rparr> =
     Returns (w, \<lparr>expr_eval_width = (\<lambda>a. None)(3 := Some 1),
                  cast_width = (\<lambda>a. None)(1 := Some 8)\<rparr>))"
  using get_min_eval_width_pure_when_cast_widths_known
    [of "BinaryIntExpr Add 0 0
           (WidthCast 1 0 (IntLiteral 2 0 5 64) (Some (IntLiteral 3 0 8 64)) 64)
           (IntLiteral 4 0 1 16)"
        "\<lparr>expr_eval_width = (\<lambda>a. None)(3 := Some 1), cast_width = (\<lambda>a. None)(1 := Some 8)\<rparr>"]
  by (simp add: unfold_evaluation fun_eq_iff)

subsection \<open>The type of a ternary\<close>

text \<open>
  C7. The claim: \<^verbatim>\<open>TernaryExpr.predict_type\<close> returns the integer type whenever both branches
  are numeric, boolean or single-bit.

  The condition is checked against \<^verbatim>\<open>[int, bool, tp.Bit]\<close>, the branches against
  \<^verbatim>\<open>num_t = [int, bool]\<close>. A single-bit branch (an \<^verbatim>\<open>AssignmentCast\<close> to \<^verbatim>\<open>tp.Bit\<close>) beside an
  integer branch raises the branch-incompatibility error, and two single-bit branches give
  the single-bit type, not the integer type.
\<close>

theorem ternary_rejects_single_bit_branch:
  "predicted (TernaryExpr 0 7 (IntLiteral 1 7 1 64)
      (AssignmentCast 2 7 (IntLiteral 3 7 1 64) Bit_t) (IntLiteral 4 7 0 64)) =
     Raises (RDLCompileError
       ''True/False results of ternary conditional are not compatible types'' 7) \<and>
   predicted (TernaryExpr 0 7 (IntLiteral 1 7 1 64)
      (AssignmentCast 2 7 (IntLiteral 3 7 1 64) Bit_t)
      (AssignmentCast 4 7 (IntLiteral 5 7 0 64) Bit_t)) = Returns Bit_t"
  by (simp add: unfold_evaluation)

subsection \<open>A resolved width is at least 1\<close>

text \<open>
  C8. The claim: every operation that sets a width leaves it at least 1.

  \<^verbatim>\<open>_Expr.resolve_expr_width\<close> starts from 1 and \<^verbatim>\<open>TernaryExpr.resolve_expr_width\<close> takes
  \<^verbatim>\<open>max(1, wj, wk)\<close>; \<^verbatim>\<open>WidthCast.get_value\<close> and \<^verbatim>\<open>_ExpShiftExpr.resolve_expr_width\<close> have no
  such floor. A cast to width 0 has width 8 after resolution and width 0 after
  \<^verbatim>\<open>get_value\<close>; a shift whose left operand is that cast, or a literal of width 0, resolves
  to width 0.
\<close>

theorem resolved_width_zero:
  "width_after_resolution (WidthCast 0 0 (IntLiteral 1 0 5 8) None 0) 0 = Returns (Some 8) \<and>
   width_after_evaluation (WidthCast 0 0 (IntLiteral 1 0 5 8) None 0) 0 = Returns (Some 0) \<and>
   width_after_resolution (ExpShiftExpr LShift 0 0
      (WidthCast 1 0 (IntLiteral 2 0 5 8) None 0) (IntLiteral 3 0 1 64)) 0 = Returns (Some 0) \<and>
   width_after_resolution (ExpShiftExpr LShift 0 0
      (IntLiteral 1 0 5 0) (IntLiteral 2 0 1 64)) 0 = Returns (Some 0)"
  by (simp add: unfold_evaluation)

end
